theory Spec2Isabelle
  imports
    Main
    "HOL-Library.AList"
    "HOL-Library.Multiset"
    "HOL-Library.Option_ord"
    "HOL-Library.Product_Lexorder"
begin

section \<open>The compliance notebook (lanterndb/lantern.ipynb)\<close>

text \<open>
  The notebook is a sequence of code cells: an ingest request, a chunk request, the
  creation of the table \<open>compliance_documents\<close>, the registration of an embedding
  job, the retrieval loop filling \<open>similar_chunks\<close>, and the cell that defines
  \<open>check_compliance\<close>, fills \<open>compliance_results\<close> and prints the non-compliant
  queries. Each cell is a function here. What a cell receives from outside (the HTTP
  service, the language model, the embedding function and distance operator of the
  database) is a parameter; a Python exception is the left summand of the result, and
  for a cell on the database connection it stands beside the connection the cell leaves.
\<close>

subsection \<open>Python values and exceptions\<close>

datatype error =
    AttributeError
  | IndexError
  | KeyError
  | NameError
  | TypeError
  | JSONDecodeError
  | DuplicateTable
  | UndefinedTable
  | ActiveSqlTransaction
  | InFailedSqlTransaction
  | APIError

text \<open>
  The values the notebook handles. A float is never inspected by the notebook, so its
  representation is the type parameter \<open>'f\<close>. \<open>PyObject\<close> is any other object (a
  bound method, say), known by a description only. A dictionary is the list of its
  items in insertion order.
\<close>

datatype 'f pyval =
    PyNone
  | PyBool bool
  | PyInt int
  | PyFloat 'f
  | PyStr string
  | PyList "'f pyval list"
  | PyTuple "'f pyval list"
  | PyDict "('f pyval \<times> 'f pyval) list"
  | PyObject string

definition and_then :: "error + 'a \<Rightarrow> ('a \<Rightarrow> error + 'b) \<Rightarrow> error + 'b" where
  "and_then r f = (case r of Inl e \<Rightarrow> Inl e | Inr x \<Rightarrow> f x)"

text \<open>\<open>xs[i]\<close> on a sequence: a negative index counts from the end.\<close>

definition seq_getitem :: "'a list \<Rightarrow> int \<Rightarrow> error + 'a" where
  "seq_getitem xs i =
     (if 0 \<le> i \<and> i < int (length xs) then Inr (xs ! nat i)
      else if i < 0 \<and> - int (length xs) \<le> i then Inr (xs ! nat (int (length xs) + i))
      else Inl IndexError)"

text \<open>
  \<open>v[k]\<close>. A list, tuple or string takes an integer (a bool is one) and raises
  TypeError for any other key; a dictionary looks the key up and raises KeyError when
  it is absent; nothing else is subscriptable. Keys are compared structurally, which
  is Python's comparison for string keys.
\<close>

fun py_getitem :: "'f pyval \<Rightarrow> 'f pyval \<Rightarrow> error + 'f pyval" where
  "py_getitem (PyList xs) (PyInt i) = seq_getitem xs i"
| "py_getitem (PyList xs) (PyBool b) = seq_getitem xs (if b then 1 else 0)"
| "py_getitem (PyList xs) k = Inl TypeError"
| "py_getitem (PyTuple xs) (PyInt i) = seq_getitem xs i"
| "py_getitem (PyTuple xs) (PyBool b) = seq_getitem xs (if b then 1 else 0)"
| "py_getitem (PyTuple xs) k = Inl TypeError"
| "py_getitem (PyStr s) (PyInt i) = and_then (seq_getitem s i) (\<lambda>c. Inr (PyStr [c]))"
| "py_getitem (PyStr s) (PyBool b) =
     and_then (seq_getitem s (if b then 1 else 0)) (\<lambda>c. Inr (PyStr [c]))"
| "py_getitem (PyStr s) k = Inl TypeError"
| "py_getitem (PyDict kvs) (PyList xs) = Inl TypeError"
| "py_getitem (PyDict kvs) (PyDict xs) = Inl TypeError"
| "py_getitem (PyDict kvs) k =
     (case map_of kvs k of None \<Rightarrow> Inl KeyError | Some v \<Rightarrow> Inr v)"
| "py_getitem v k = Inl TypeError"

text \<open>
  \<open>v.name\<close> for a public name. The attributes of a built-in value are those of its
  type; the keys of a dictionary are not among them. The attribute found is a method
  or a numeric attribute, returned as an object the notebook knows nothing more of.
\<close>

fun public_attrs :: "'f pyval \<Rightarrow> string list" where
  "public_attrs PyNone = []"
| "public_attrs (PyBool b) =
     [''as_integer_ratio'', ''bit_length'', ''conjugate'', ''denominator'', ''from_bytes'',
      ''imag'', ''numerator'', ''real'', ''to_bytes'']"
| "public_attrs (PyInt i) =
     [''as_integer_ratio'', ''bit_length'', ''conjugate'', ''denominator'', ''from_bytes'',
      ''imag'', ''numerator'', ''real'', ''to_bytes'']"
| "public_attrs (PyFloat x) =
     [''as_integer_ratio'', ''conjugate'', ''fromhex'', ''hex'', ''imag'', ''is_integer'',
      ''real'']"
| "public_attrs (PyStr s) =
     [''capitalize'', ''casefold'', ''center'', ''count'', ''encode'', ''endswith'',
      ''expandtabs'', ''find'', ''format'', ''format_map'', ''index'', ''isalnum'',
      ''isalpha'', ''isascii'', ''isdecimal'', ''isdigit'', ''isidentifier'', ''islower'',
      ''isnumeric'', ''isprintable'', ''isspace'', ''istitle'', ''isupper'', ''join'',
      ''ljust'', ''lower'', ''lstrip'', ''maketrans'', ''partition'', ''replace'', ''rfind'',
      ''rindex'', ''rjust'', ''rpartition'', ''rsplit'', ''rstrip'', ''split'',
      ''splitlines'', ''startswith'', ''strip'', ''swapcase'', ''title'', ''translate'',
      ''upper'', ''zfill'']"
| "public_attrs (PyList xs) =
     [''append'', ''clear'', ''copy'', ''count'', ''extend'', ''index'', ''insert'', ''pop'',
      ''remove'', ''reverse'', ''sort'']"
| "public_attrs (PyTuple xs) = [''count'', ''index'']"
| "public_attrs (PyDict kvs) =
     [''clear'', ''copy'', ''fromkeys'', ''get'', ''items'', ''keys'', ''pop'', ''popitem'',
      ''setdefault'', ''update'', ''values'']"
| "public_attrs (PyObject d) = []"

definition py_getattr :: "'f pyval \<Rightarrow> string \<Rightarrow> error + 'f pyval" where
  "py_getattr v name =
     (if name \<in> set (public_attrs v) then Inr (PyObject name) else Inl AttributeError)"

subsection \<open>The HTTP responses of the ingest and chunk services\<close>

text \<open>
  What \<open>requests.post\<close> returns: the status code and the body, parsed as JSON where
  it is JSON. \<open>response.json()\<close> raises on a body that is not.
\<close>

record 'f http_response =
  status_code :: int
  body :: "'f pyval option"

definition response_json :: "'f http_response \<Rightarrow> error + 'f pyval" where
  "response_json response =
     (case body response of None \<Rightarrow> Inl JSONDecodeError | Some v \<Rightarrow> Inr v)"

definition response_attrs :: "string list" where
  "response_attrs =
     [''apparent_encoding'', ''close'', ''connection'', ''content'', ''cookies'', ''elapsed'',
      ''encoding'', ''headers'', ''history'', ''is_permanent_redirect'', ''is_redirect'',
      ''iter_content'', ''iter_lines'', ''json'', ''links'', ''next'', ''ok'',
      ''raise_for_status'', ''raw'', ''reason'', ''request'', ''status_code'', ''text'',
      ''url'']"

text \<open>\<open>response.name\<close>: the attributes of the response object, not the fields of its body.\<close>

definition response_getattr :: "'f http_response \<Rightarrow> string \<Rightarrow> error + 'f pyval" where
  "response_getattr response name =
     (if name = ''status_code'' then Inr (PyInt (status_code response))
      else if name = ''ok'' then Inr (PyBool (status_code response < 400))
      else if name \<in> set response_attrs then Inr (PyObject name)
      else Inl AttributeError)"

subsection \<open>Steps 1 and 2: the ingest request and the chunk request\<close>

text \<open>
  The variables \<open>markdown_url\<close> and \<open>chunks\<close> the two cells bind; \<open>None\<close> is
  a name not bound yet. A cell that raises ends with the exception. \<open>post\<close> is the
  service: the response \<open>requests.post\<close> returns for a URL and a JSON payload.
\<close>

record 'f namespace =
  markdown_url_var :: "'f pyval option"
  chunks_var :: "'f pyval option"

definition pdf_url :: string where
  "pdf_url = ''https://www.congress.gov/116/plaws/publ283/PLAW-116publ283.pdf''"

definition ingest_api_url :: string where
  "ingest_api_url = ''https://api.ecliptor.com/ingest/pdf''"

definition chunk_api_url :: string where
  "chunk_api_url = ''https://api.ecliptor.com/chunk''"

text \<open>
  \<^verbatim>\<open>
  api_url = "https://api.ecliptor.com/ingest/pdf"
  payload = {"url": pdf_url}
  response = requests.post(api_url, json=payload)
  if response.status_code == 200:
      result = response.json()
      markdown_url = result.markdown_url
  \<close>
\<close>

definition ingest_cell ::
  "(string \<Rightarrow> 'f pyval \<Rightarrow> 'f http_response) \<Rightarrow> 'f namespace \<Rightarrow> error + 'f namespace" where
  "ingest_cell post ns =
     (let api_url = ingest_api_url;
          payload = PyDict [(PyStr ''url'', PyStr pdf_url)];
          response = post api_url payload
      in if status_code response = 200
         then and_then (response_json response) (\<lambda>result.
              and_then (py_getattr result ''markdown_url'') (\<lambda>v.
              Inr (ns\<lparr>markdown_url_var := Some v\<rparr>)))
         else Inr ns)"

text \<open>
  \<^verbatim>\<open>
  api_url = "https://api.ecliptor.com/chunk"
  payload = {"url": markdown_url}
  response = requests.post(api_url, json=payload)
  chunks = []
  if response.status_code == 200:
      result = response.json()
      chunks = response.chunks
  \<close>
\<close>

definition chunk_cell ::
  "(string \<Rightarrow> 'f pyval \<Rightarrow> 'f http_response) \<Rightarrow> 'f namespace \<Rightarrow> error + 'f namespace" where
  "chunk_cell post ns =
     (case markdown_url_var ns of
        None \<Rightarrow> Inl NameError
      | Some url \<Rightarrow>
          (let api_url = chunk_api_url;
               payload = PyDict [(PyStr ''url'', url)];
               response = post api_url payload;
               ns1 = ns\<lparr>chunks_var := Some (PyList [])\<rparr>
           in if status_code response = 200
              then and_then (response_json response) (\<lambda>result.
                   and_then (response_getattr response ''chunks'') (\<lambda>v.
                   Inr (ns1\<lparr>chunks_var := Some v\<rparr>)))
              else Inr ns1))"

subsection \<open>Step 3: the table and the embedding job\<close>

text \<open>
  A row of \<open>compliance_documents (id INTEGER, chunk TEXT, vector REAL[1536])\<close>; the
  vector is null until the embedding job has filled it.
\<close>

record 'f compliance_document =
  doc_id :: int
  chunk :: string
  vector :: "'f list option"

text \<open>
  The database as the notebook's statements see it: the table (\<open>None\<close> before it is
  created), the two settings and the registered embedding jobs.
\<close>

record 'f database =
  compliance_documents :: "'f compliance_document list option"
  enable_daemon :: bool
  openai_token :: "string option"
  embedding_jobs :: "(string \<times> string \<times> string \<times> string) list"

text \<open>
  The notebook reaches the database through one \<open>psycopg2\<close> connection, left in its
  default mode: an \<open>execute\<close> on an idle connection opens a transaction, a statement
  that fails leaves the transaction failed, every later \<open>execute\<close> on a failed
  transaction raises InFailedSqlTransaction, and \<open>commit\<close> ends the transaction,
  keeping its changes or, where it has failed, dropping them. \<open>committed\<close> is the
  database as committed, \<open>pending\<close> the database as the open transaction sees it.
\<close>

datatype transaction_status = Idle | InTransaction | InError

record 'f connection =
  committed :: "'f database"
  pending :: "'f database"
  transaction :: transaction_status

text \<open>
  The statements of the two cells, each run inside the open transaction.
  \<open>CREATE TABLE\<close> fails on a table that exists and creates the table without
  rows. \<open>ALTER SYSTEM\<close> cannot run inside a transaction block, and the connection
  has opened one. \<open>add_embedding_job\<close> needs the table; the job it registers fills
  the vector of rows the table holds and adds no row.
\<close>

datatype statement =
    CreateTable
  | AlterSystemEnableDaemon
  | AlterDatabaseToken
  | AddEmbeddingJob

fun run_statement :: "statement \<Rightarrow> 'f database \<Rightarrow> error + 'f database" where
  "run_statement CreateTable db =
     (case compliance_documents db of
        Some rows \<Rightarrow> Inl DuplicateTable
      | None \<Rightarrow> Inr (db\<lparr>compliance_documents := Some []\<rparr>))"
| "run_statement AlterSystemEnableDaemon db = Inl ActiveSqlTransaction"
| "run_statement AlterDatabaseToken db = Inr (db\<lparr>openai_token := Some ''OPENAI_KEY''\<rparr>)"
| "run_statement AddEmbeddingJob db =
     (case compliance_documents db of
        None \<Rightarrow> Inl UndefinedTable
      | Some rows \<Rightarrow>
          Inr (db\<lparr>embedding_jobs :=
                 embedding_jobs db @
                 [(''compliance_documents'', ''chunk'', ''vector'',
                   ''openai/text-embedding-3-small'')]\<rparr>))"

text \<open>
  \<open>cur.execute(statement)\<close>: the exception raised, if any, and the connection
  afterwards.
\<close>

definition cursor_execute ::
  "statement \<Rightarrow> 'f connection \<Rightarrow> error option \<times> 'f connection" where
  "cursor_execute stmt conn =
     (case transaction conn of
        InError \<Rightarrow> (Some InFailedSqlTransaction, conn)
      | _ \<Rightarrow>
          (case run_statement stmt (pending conn) of
             Inl e \<Rightarrow> (Some e, conn\<lparr>transaction := InError\<rparr>)
           | Inr db \<Rightarrow> (None, conn\<lparr>pending := db, transaction := InTransaction\<rparr>)))"

text \<open>\<open>conn.commit()\<close>.\<close>

definition connection_commit :: "'f connection \<Rightarrow> 'f connection" where
  "connection_commit conn =
     (case transaction conn of
        InError \<Rightarrow> conn\<lparr>pending := committed conn, transaction := Idle\<rparr>
      | _ \<Rightarrow> conn\<lparr>committed := pending conn, transaction := Idle\<rparr>)"

text \<open>The next step of a cell runs unless an exception has ended the cell.\<close>

definition then_run ::
  "error option \<times> 'c \<Rightarrow> ('c \<Rightarrow> error option \<times> 'c) \<Rightarrow> error option \<times> 'c" where
  "then_run r step = (case r of (Some e, c) \<Rightarrow> (Some e, c) | (None, c) \<Rightarrow> step c)"

text \<open>
  \<^verbatim>\<open>
  create_table_query = f"CREATE TABLE compliance_documents (id INTEGER, chunk TEXT, vector REAL[1536]);"
  cur.execute(create_table_query)
  conn.commit()
  \<close>
\<close>

definition create_table_cell :: "'f connection \<Rightarrow> error option \<times> 'f connection" where
  "create_table_cell conn =
     then_run (cursor_execute CreateTable conn) (\<lambda>c. (None, connection_commit c))"

text \<open>
  \<^verbatim>\<open>
  cur.execute("ALTER SYSTEM SET lantern_extras.enable_daemon=true; SELECT pg_reload_conf();")
  cur.execute("ALTER DATABASE postgres SET lantern_extras.openai_token='OPENAI_KEY';")
  cur.execute("SELECT add_embedding_job('compliance_documents', 'chunk', 'vector',
                                        'openai/text-embedding-3-small');")
  conn.commit()
  \<close>
  These and the statement above are every statement the code cells run on the table
  before the retrieval loop. (The \<open>CREATE INDEX\<close> statement of the notebook stands in
  a prose cell; it would add no row either.)
\<close>

definition embedding_job_cell :: "'f connection \<Rightarrow> error option \<times> 'f connection" where
  "embedding_job_cell conn =
     then_run
       (then_run
          (then_run (cursor_execute AlterSystemEnableDaemon conn)
             (cursor_execute AlterDatabaseToken))
          (cursor_execute AddEmbeddingJob))
       (\<lambda>c. (None, connection_commit c))"

subsection \<open>Step 4: the retrieval loop\<close>

text \<open>
  \<^verbatim>\<open>
  SELECT id, vector FROM compliance_documents
  ORDER BY vector <-> openai_embedding('openai/text-embedding-3-small', %s)
  LIMIT 3;
  \<close>
  \<open>embedding\<close> is the embedding function and \<open>distance\<close> the distance operator;
  distances are of any linearly ordered type. The distance of a null vector is null, and an ascending
  order puts nulls last: the key of a row is the pair of "its vector is null" and its
  distance, ordered lexicographically. Rows of equal key come in the order of the
  table (the database leaves their order open).
\<close>

definition order_key ::
  "(string \<Rightarrow> 'f list) \<Rightarrow> ('f list \<Rightarrow> 'f list \<Rightarrow> 'd) \<Rightarrow> string \<Rightarrow> 'f compliance_document
     \<Rightarrow> bool \<times> 'd option" where
  "order_key embedding distance query row =
     (case vector row of
        None \<Rightarrow> (True, None)
      | Some v \<Rightarrow> (False, Some (distance v (embedding query))))"

definition select_rows ::
  "(string \<Rightarrow> 'f list) \<Rightarrow> ('f list \<Rightarrow> 'f list \<Rightarrow> 'd::linorder) \<Rightarrow> string
     \<Rightarrow> 'f compliance_document list \<Rightarrow> 'f compliance_document list" where
  "select_rows embedding distance query rows = take 3 (sort_key (order_key embedding distance query) rows)"

text \<open>A fetched row is the tuple of the selected columns, \<open>(id, vector)\<close>.\<close>

definition row_tuple :: "'f compliance_document \<Rightarrow> 'f pyval" where
  "row_tuple row =
     PyTuple [PyInt (doc_id row),
              (case vector row of None \<Rightarrow> PyNone | Some v \<Rightarrow> PyList (map PyFloat v))]"

text \<open>
  \<open>cursor.execute(...)\<close> followed by \<open>cursor.fetchall()\<close>, on the database the
  statement reads.
\<close>

definition execute_fetchall ::
  "(string \<Rightarrow> 'f list) \<Rightarrow> ('f list \<Rightarrow> 'f list \<Rightarrow> 'd::linorder) \<Rightarrow> 'f database \<Rightarrow> string
     \<Rightarrow> error + 'f pyval" where
  "execute_fetchall embedding distance db query =
     (case compliance_documents db of
        None \<Rightarrow> Inl UndefinedTable
      | Some rows \<Rightarrow> Inr (PyList (map row_tuple (select_rows embedding distance query rows))))"

text \<open>
  The calls the notebook makes, in the order it makes them: a retrieval query, a call
  of the judge, a request to the language model.
\<close>

datatype 'f prompt =
  Prompt (question: string) (text1: "'f pyval") (text2: "'f pyval") (text3: "'f pyval")

record 'f chat_request =
  model :: string
  system_content :: string
  user_prompt :: "'f prompt"

datatype 'f event = Retrieve string | Judge string | Llm "'f chat_request"

text \<open>The queries retrieved, and the queries judged, in a sequence of calls.\<close>

fun retrieved :: "'f event list \<Rightarrow> string list" where
  "retrieved [] = []"
| "retrieved (Retrieve q # es) = q # retrieved es"
| "retrieved (e # es) = retrieved es"

fun judged :: "'f event list \<Rightarrow> string list" where
  "judged [] = []"
| "judged (Judge q # es) = q # judged es"
| "judged (e # es) = judged es"

fun llm_requests :: "'f event list \<Rightarrow> 'f chat_request list" where
  "llm_requests [] = []"
| "llm_requests (Llm r # es) = r # llm_requests es"
| "llm_requests (e # es) = llm_requests es"

text \<open>The distinct elements of a list, in the order in which they first occur.\<close>

fun first_occurrences :: "'a list \<Rightarrow> 'a list" where
  "first_occurrences [] = []"
| "first_occurrences (x # xs) = x # filter (\<lambda>y. y \<noteq> x) (first_occurrences xs)"

text \<open>\<open>d[k] = v\<close> on a dictionary: an existing key keeps its place, a new one goes last.\<close>

definition dict_setitem :: "'k \<Rightarrow> 'v \<Rightarrow> ('k \<times> 'v) list \<Rightarrow> ('k \<times> 'v) list" where
  "dict_setitem k v d = AList.update k v d"

text \<open>
  \<^verbatim>\<open>
  similar_chunks = {}
  for query in query_list:
      cursor.execute(..., (query,))
      results = cursor.fetchall()
      similar_chunks[query] = results
  \<close>
\<close>

fun retrieval_loop ::
  "(string \<Rightarrow> 'f list) \<Rightarrow> ('f list \<Rightarrow> 'f list \<Rightarrow> 'd::linorder) \<Rightarrow> 'f database \<Rightarrow> string list
     \<Rightarrow> (string \<times> 'f pyval) list \<Rightarrow> (error + (string \<times> 'f pyval) list) \<times> 'f event list" where
  "retrieval_loop embedding distance db [] similar_chunks = (Inr similar_chunks, [])"
| "retrieval_loop embedding distance db (query # rest) similar_chunks =
     (case execute_fetchall embedding distance db query of
        Inl e \<Rightarrow> (Inl e, [Retrieve query])
      | Inr results \<Rightarrow>
          (case retrieval_loop embedding distance db rest (dict_setitem query results similar_chunks) of
             (r, events) \<Rightarrow> (r, Retrieve query # events)))"

definition retrieval_cell ::
  "(string \<Rightarrow> 'f list) \<Rightarrow> ('f list \<Rightarrow> 'f list \<Rightarrow> 'd::linorder) \<Rightarrow> 'f database \<Rightarrow> string list
     \<Rightarrow> (error + (string \<times> 'f pyval) list) \<times> 'f event list" where
  "retrieval_cell embedding distance db query_list = retrieval_loop embedding distance db query_list []"


subsection \<open>Step 4: the compliance judge\<close>

text \<open>
  Strings are lists of characters with code points 0 to 255. \<open>str.strip()\<close> removes the
  whitespace characters at both ends, \<open>str.lower()\<close> maps each capital letter to its
  small one.
\<close>

definition py_isspace :: "char \<Rightarrow> bool" where
  "py_isspace c =
     (let n = (of_char c :: nat)
      in (9 \<le> n \<and> n \<le> 13) \<or> (28 \<le> n \<and> n \<le> 32) \<or> n = 133 \<or> n = 160)"

definition lower_char :: "char \<Rightarrow> char" where
  "lower_char c =
     (let n = (of_char c :: nat)
      in if (65 \<le> n \<and> n \<le> 90) \<or> (192 \<le> n \<and> n \<le> 222 \<and> n \<noteq> 215)
         then char_of (n + 32) else c)"

definition strip :: "string \<Rightarrow> string" where
  "strip s = rev (dropWhile py_isspace (rev (dropWhile py_isspace s)))"

definition lower :: "string \<Rightarrow> string" where
  "lower s = map lower_char s"

text \<open>
  The prompt is the template of \<open>check_compliance\<close> with its four holes filled: the
  query and \<open>chunks[0]['id']\<close>, \<open>chunks[1]['id']\<close>, \<open>chunks[2]['id']\<close>, evaluated
  in this order.
\<close>

definition build_prompt :: "string \<Rightarrow> 'f pyval \<Rightarrow> error + 'f prompt" where
  "build_prompt query chunks =
     and_then (py_getitem chunks (PyInt 0)) (\<lambda>c0.
     and_then (py_getitem c0 (PyStr ''id'')) (\<lambda>t1.
     and_then (py_getitem chunks (PyInt 1)) (\<lambda>c1.
     and_then (py_getitem c1 (PyStr ''id'')) (\<lambda>t2.
     and_then (py_getitem chunks (PyInt 2)) (\<lambda>c2.
     and_then (py_getitem c2 (PyStr ''id'')) (\<lambda>t3.
     Inr (Prompt query t1 t2 t3)))))))"

text \<open>
  \<^verbatim>\<open>
  response = client.chat.completions.create(model="gpt-4o", messages=[...])
  result = response.choices[0].message.content.strip().lower() == 'true'
  return result
  \<close>
  \<open>llm\<close> gives the content of the model's answer to a request, or the exception of
  the client.
\<close>

definition judge_request :: "'f prompt \<Rightarrow> 'f chat_request" where
  "judge_request prompt =
     \<lparr>model = ''gpt-4o'',
      system_content = ''You are a compliance checker. Respond with only 'True' or 'False'.'',
      user_prompt = prompt\<rparr>"

definition check_compliance ::
  "('f chat_request \<Rightarrow> error + string) \<Rightarrow> string \<Rightarrow> 'f pyval \<Rightarrow> (error + bool) \<times> 'f event list" where
  "check_compliance llm query chunks =
     (case build_prompt query chunks of
        Inl e \<Rightarrow> (Inl e, [])
      | Inr prompt \<Rightarrow>
          (let request = judge_request prompt
           in case llm request of
                Inl e \<Rightarrow> (Inl e, [Llm request])
              | Inr content \<Rightarrow> (Inr (lower (strip content) = ''true''), [Llm request])))"

text \<open>
  \<^verbatim>\<open>
  compliance_results = {}
  for query, chunks in similar_chunks.items():
      is_compliant = check_compliance(query, chunks)
      compliance_results[query] = is_compliant
  \<close>
\<close>

fun compliance_loop ::
  "('f chat_request \<Rightarrow> error + string) \<Rightarrow> (string \<times> 'f pyval) list \<Rightarrow> (string \<times> bool) list
     \<Rightarrow> (error + (string \<times> bool) list) \<times> 'f event list" where
  "compliance_loop llm [] compliance_results = (Inr compliance_results, [])"
| "compliance_loop llm ((query, chunks) # rest) compliance_results =
     (case check_compliance llm query chunks of
        (Inl e, events) \<Rightarrow> (Inl e, Judge query # events)
      | (Inr is_compliant, events) \<Rightarrow>
          (case compliance_loop llm rest (dict_setitem query is_compliant compliance_results) of
             (r, events') \<Rightarrow> (r, Judge query # events @ events')))"

text \<open>The lines the cell prints.\<close>

definition report :: "(string \<times> bool) list \<Rightarrow> string list" where
  "report compliance_results =
     ''Non-compliant queries:'' #
     map (\<lambda>(query, is_compliant). ''- '' @ query)
       (filter (\<lambda>(query, is_compliant). \<not> is_compliant) compliance_results)"

definition compliance_cell ::
  "('f chat_request \<Rightarrow> error + string) \<Rightarrow> (string \<times> 'f pyval) list
     \<Rightarrow> (error + (string \<times> bool) list \<times> string list) \<times> 'f event list" where
  "compliance_cell llm similar_chunks =
     (case compliance_loop llm similar_chunks [] of
        (Inl e, events) \<Rightarrow> (Inl e, events)
      | (Inr compliance_results, events) \<Rightarrow>
          (Inr (compliance_results, report compliance_results), events))"

text \<open>The retrieval cell followed by the compliance cell, as the notebook runs them.\<close>

definition query_cells ::
  "(string \<Rightarrow> 'f list) \<Rightarrow> ('f list \<Rightarrow> 'f list \<Rightarrow> 'd::linorder) \<Rightarrow> ('f chat_request \<Rightarrow> error + string)
     \<Rightarrow> 'f database \<Rightarrow> string list
     \<Rightarrow> (error + (string \<times> bool) list \<times> string list) \<times> 'f event list" where
  "query_cells embedding distance llm db query_list =
     (case retrieval_cell embedding distance db query_list of
        (Inl e, events) \<Rightarrow> (Inl e, events)
      | (Inr similar_chunks, events) \<Rightarrow>
          (case compliance_cell llm similar_chunks of
             (r, events') \<Rightarrow> (r, events @ events')))"

subsection \<open>Inputs for the examples\<close>

text \<open>
  In the examples a float is an integer. A language model that answers every request
  with the same content.
\<close>

definition mock_llm :: "string \<Rightarrow> int chat_request \<Rightarrow> error + string" where
  "mock_llm content request = Inr content"

text \<open>Three records as the signature of the judge announces them: dictionaries with an \<open>id\<close>.\<close>

definition dict_chunks :: "int pyval" where
  "dict_chunks =
     PyList [PyDict [(PyStr ''id'', PyInt 1)], PyDict [(PyStr ''id'', PyInt 2)],
             PyDict [(PyStr ''id'', PyInt 3)]]"

text \<open>A service that answers every request with the same status and body.\<close>

definition mock_post ::
  "int \<Rightarrow> int pyval option \<Rightarrow> string \<Rightarrow> int pyval \<Rightarrow> int http_response" where
  "mock_post status answer url payload = \<lparr>status_code = status, body = answer\<rparr>"

definition unbound_namespace :: "int namespace" where
  "unbound_namespace = \<lparr>markdown_url_var = None, chunks_var = None\<rparr>"

definition bound_namespace :: "int namespace" where
  "bound_namespace =
     \<lparr>markdown_url_var = Some (PyStr ''https://example.org/act.md''), chunks_var = None\<rparr>"





definition database_with :: "int compliance_document list \<Rightarrow> int database" where
  "database_with rows =
     \<lparr>compliance_documents = Some rows, enable_daemon = True,
      openai_token = Some ''OPENAI_KEY'',
      embedding_jobs =
        [(''compliance_documents'', ''chunk'', ''vector'', ''openai/text-embedding-3-small'')]\<rparr>"

definition sample_rows :: "int compliance_document list" where
  "sample_rows =
     [\<lparr>doc_id = 1, chunk = ''c1'', vector = Some [9]\<rparr>,
      \<lparr>doc_id = 2, chunk = ''c2'', vector = Some [1]\<rparr>,
      \<lparr>doc_id = 3, chunk = ''c3'', vector = None\<rparr>,
      \<lparr>doc_id = 4, chunk = ''c4'', vector = Some [4]\<rparr>,
      \<lparr>doc_id = 5, chunk = ''c5'', vector = Some [2]\<rparr>]"

definition length_embedding :: "string \<Rightarrow> int list" where
  "length_embedding query = [int (length query)]"

definition l1_distance :: "int list \<Rightarrow> int list \<Rightarrow> int" where
  "l1_distance u v = sum_list (map2 (\<lambda>a b. \<bar>a - b\<bar>) u v)"

section \<open>Properties\<close>

subsection \<open>Results and subscripts\<close>

lemma and_then_Inr [simp]: "and_then (Inr x) f = f x"
  by (simp add: and_then_def)

lemma and_then_Inl [simp]: "and_then (Inl e) f = Inl e"
  by (simp add: and_then_def)

lemma seq_getitem_nat:
  "seq_getitem xs (int n) = (if n < length xs then Inr (xs ! n) else Inl IndexError)"
  by (simp add: seq_getitem_def)

lemma seq_getitem_errors: "seq_getitem xs i = Inl e \<Longrightarrow> e = IndexError"
  by (auto simp: seq_getitem_def split: if_splits)

lemma py_getitem_errors:
  "py_getitem v k = Inl e \<Longrightarrow> e = IndexError \<or> e = TypeError \<or> e = KeyError"
  by (cases "(v, k)" rule: py_getitem.cases)
     (auto simp: and_then_def dest: seq_getitem_errors split: sum.splits option.splits)

lemma seq_getitem_0: "seq_getitem (x # xs) 0 = Inr x"
  using seq_getitem_nat[of "x # xs" 0] by simp

lemma seq_getitem_1: "seq_getitem (x # y # xs) 1 = Inr y"
  using seq_getitem_nat[of "x # y # xs" 1] by simp

lemma seq_getitem_2: "seq_getitem (x # y # z # xs) 2 = Inr z"
  using seq_getitem_nat[of "x # y # z # xs" 2] by simp

lemma seq_getitem_out_0: "seq_getitem [] 0 = Inl IndexError"
  using seq_getitem_nat[of "[]" 0] by simp

lemma seq_getitem_out_1: "seq_getitem [x] 1 = Inl IndexError"
  using seq_getitem_nat[of "[x]" 1] by simp

lemma seq_getitem_out_2: "seq_getitem [x, y] 2 = Inl IndexError"
  using seq_getitem_nat[of "[x, y]" 2] by simp

lemmas seq_getitem_simps =
  seq_getitem_0 seq_getitem_1 seq_getitem_2 seq_getitem_out_0 seq_getitem_out_1 seq_getitem_out_2

lemma tuple_getitem_str: "py_getitem (PyTuple xs) (PyStr k) = Inl TypeError"
  by simp

lemma build_prompt_errors:
  "build_prompt query chunks = Inl e \<Longrightarrow> e = IndexError \<or> e = TypeError \<or> e = KeyError"
  unfolding build_prompt_def and_then_def
  by (auto split: sum.splits dest: py_getitem_errors)

lemma build_prompt_too_few:
  assumes "length records < 3"
  shows "\<exists>e. build_prompt query (PyList records) = Inl e"
proof -
  consider "records = []" | a where "records = [a]" | a b where "records = [a, b]"
    using assms by (cases records rule: list.exhaust; simp; cases "tl records"; simp; cases "tl (tl records)"; auto)
  then show ?thesis
  proof cases
    case 1
    then show ?thesis by (simp add: build_prompt_def seq_getitem_simps)
  next
    case 2
    then show ?thesis
      by (cases "py_getitem a (PyStr ''id'')") (simp_all add: build_prompt_def seq_getitem_simps)
  next
    case 3
    then show ?thesis
      by (cases "py_getitem a (PyStr ''id'')"; cases "py_getitem b (PyStr ''id'')")
         (simp_all add: build_prompt_def seq_getitem_simps)
  qed
qed

lemma check_compliance_prompt_error:
  "build_prompt query chunks = Inl e \<Longrightarrow> check_compliance llm query chunks = (Inl e, [])"
  by (simp add: check_compliance_def)

subsection \<open>The judge on too few records\<close>

lemma py_getitem_str_errors:
  "py_getitem r (PyStr k) = Inl e \<Longrightarrow> e = TypeError \<or> e = KeyError"
  by (cases r) (auto split: option.splits)

lemma build_prompt_none: "build_prompt query (PyList []) = Inl IndexError"
  by (simp add: build_prompt_def seq_getitem_simps)

lemma build_prompt_one:
  "build_prompt query (PyList [a]) =
     (case py_getitem a (PyStr ''id'') of Inl e \<Rightarrow> Inl e | Inr v \<Rightarrow> Inl IndexError)"
  by (simp add: build_prompt_def seq_getitem_simps split: sum.splits)

lemma build_prompt_two:
  "build_prompt query (PyList [a, b]) =
     (case py_getitem a (PyStr ''id'') of
        Inl e \<Rightarrow> Inl e
      | Inr v \<Rightarrow>
          (case py_getitem b (PyStr ''id'') of Inl e \<Rightarrow> Inl e | Inr w \<Rightarrow> Inl IndexError))"
  by (simp add: build_prompt_def seq_getitem_simps split: sum.splits)

lemma build_prompt_too_few_error:
  assumes "length records < 3"
  shows "\<exists>e. build_prompt query (PyList records) = Inl e \<and>
           ((\<forall>r\<in>set records. \<exists>v. py_getitem r (PyStr ''id'') = Inr v) \<longrightarrow> e = IndexError) \<and>
           ((\<exists>r\<in>set records. \<forall>v. py_getitem r (PyStr ''id'') \<noteq> Inr v) \<longrightarrow>
              e = TypeError \<or> e = KeyError)"
proof -
  consider "records = []" | a where "records = [a]" | a b where "records = [a, b]"
    using assms
    by (cases records rule: list.exhaust; simp; cases "tl records"; simp;
        cases "tl (tl records)"; auto)
  then show ?thesis
  proof cases
    case 1
    then show ?thesis by (simp add: build_prompt_none)
  next
    case 2
    show ?thesis
    proof (cases "py_getitem a (PyStr ''id'')")
      case (Inl e)
      then show ?thesis
        using py_getitem_str_errors[OF Inl] by (auto simp: 2 build_prompt_one)
    next
      case (Inr v)
      then show ?thesis by (simp add: 2 build_prompt_one)
    qed
  next
    case 3
    show ?thesis
    proof (cases "py_getitem a (PyStr ''id'')")
      case (Inl e)
      then show ?thesis
        using py_getitem_str_errors[OF Inl] by (auto simp: 3 build_prompt_two)
    next
      case a: (Inr v)
      show ?thesis
      proof (cases "py_getitem b (PyStr ''id'')")
        case (Inl e)
        then show ?thesis
          using py_getitem_str_errors[OF Inl] a by (auto simp: 3 build_prompt_two)
      next
        case (Inr w)
        then show ?thesis using a by (simp add: 3 build_prompt_two)
      qed
    qed
  qed
qed

text \<open>
  Claim C3, as the notebook has it. The judge makes no check of the number of records.
  On fewer than three records it goes on to build the prompt, and a subscript of the
  prompt raises before the language model is contacted: no request is sent. The
  exception is IndexError, at the first record that is missing, when every record
  present gives an \<open>'id'\<close>, and so on no record at all; it is the TypeError or
  KeyError of a record present when one of them gives none.
\<close>

theorem C3_too_few_records_raise_before_llm:
  assumes "length records < 3"
  shows "\<exists>e. check_compliance llm query (PyList records) = (Inl e, []) \<and>
           (e = IndexError \<or> e = TypeError \<or> e = KeyError) \<and>
           (records = [] \<longrightarrow> e = IndexError) \<and>
           ((\<forall>r\<in>set records. \<exists>v. py_getitem r (PyStr ''id'') = Inr v) \<longrightarrow> e = IndexError) \<and>
           ((\<exists>r\<in>set records. \<forall>v. py_getitem r (PyStr ''id'') \<noteq> Inr v) \<longrightarrow>
              e = TypeError \<or> e = KeyError)"
proof -
  obtain e where e: "build_prompt query (PyList records) = Inl e"
    and good: "(\<forall>r\<in>set records. \<exists>v. py_getitem r (PyStr ''id'') = Inr v) \<longrightarrow> e = IndexError"
    and bad: "(\<exists>r\<in>set records. \<forall>v. py_getitem r (PyStr ''id'') \<noteq> Inr v) \<longrightarrow>
              e = TypeError \<or> e = KeyError"
    using build_prompt_too_few_error[OF assms, of query] by blast
  have none: "records = [] \<longrightarrow> e = IndexError" using good by simp
  have c: "check_compliance llm query (PyList records) = (Inl e, [])"
    using e by (rule check_compliance_prompt_error)
  from c build_prompt_errors[OF e] none good bad show ?thesis by blast
qed

text \<open>The empty result, and a single fetched row.\<close>

theorem C3_too_few_records_witness:
  "length ([] :: int pyval list) < 3 \<and>
   check_compliance (mock_llm ''True'') ''q'' (PyList []) = (Inl IndexError, []) \<and>
   length [PyTuple [PyInt 2, PyList [PyFloat (1 :: int)]]] < 3 \<and>
   (\<exists>e. check_compliance (mock_llm ''True'') ''q'' (PyList [PyTuple [PyInt 2, PyList [PyFloat 1]]])
          = (Inl e, []) \<and> (e = TypeError \<or> e = KeyError))"
proof -
  have h0: "length ([] :: int pyval list) < 3" by simp
  have h1: "length [PyTuple [PyInt 2, PyList [PyFloat (1 :: int)]]] < 3" by simp
  have b: "\<exists>r\<in>set [PyTuple [PyInt 2, PyList [PyFloat (1 :: int)]]].
             \<forall>v. py_getitem r (PyStr ''id'') \<noteq> Inr v"
    by simp
  from C3_too_few_records_raise_before_llm[OF h0, of "mock_llm ''True''" "''q''"]
  have "check_compliance (mock_llm ''True'') ''q'' (PyList []) = (Inl IndexError, [])"
    by auto
  moreover from C3_too_few_records_raise_before_llm[OF h1, of "mock_llm ''True''" "''q''"] b
  have "\<exists>e. check_compliance (mock_llm ''True'') ''q'' (PyList [PyTuple [PyInt 2, PyList [PyFloat 1]]])
          = (Inl e, []) \<and> (e = TypeError \<or> e = KeyError)"
    by blast
  ultimately show ?thesis using h0 h1 by blast
qed

text \<open>
  On two dictionaries both give their \<open>'id'\<close> to the prompt before
  \<open>chunks[2]\<close> raises IndexError. On one fetched row the exception is the TypeError
  that three fetched rows raise as well.
\<close>

theorem C3_subscript_error_counterexample:
  "py_getitem (PyDict [(PyStr ''id'', PyInt 1)]) (PyStr ''id'') = Inr (PyInt 1 :: int pyval) \<and>
   py_getitem (PyDict [(PyStr ''id'', PyInt 2)]) (PyStr ''id'') = Inr (PyInt 2 :: int pyval) \<and>
   check_compliance (mock_llm ''True'') ''q''
     (PyList [PyDict [(PyStr ''id'', PyInt 1)], PyDict [(PyStr ''id'', PyInt 2)]]) =
     (Inl IndexError, []) \<and>
   check_compliance (mock_llm ''True'') ''q'' (PyList [PyTuple [PyInt 2, PyList [PyFloat 1]]]) =
     (Inl TypeError, []) \<and>
   check_compliance (mock_llm ''True'') ''q''
     (PyList [PyTuple [PyInt 2, PyList [PyFloat 1]], PyTuple [PyInt 5, PyList [PyFloat 2]],
              PyTuple [PyInt 4, PyList [PyFloat 4]]]) =
     (Inl TypeError, [])"
  by (simp add: check_compliance_def build_prompt_def seq_getitem_simps)

subsection \<open>The normalisation of the answer\<close>

lemma of_char_lt: "(of_char c :: nat) < 256"
  by (metis of_char_mod_256 mod_less_divisor zero_less_numeral)

lemma lower_char_not_space: "\<not> py_isspace (lower_char c) \<Longrightarrow> \<not> py_isspace c"
  using of_char_lt[of c]
  by (auto simp: py_isspace_def lower_char_def Let_def split: if_splits)

lemma strip_decompose:
  "\<exists>pre post. s = pre @ strip s @ post \<and> (\<forall>c\<in>set pre. py_isspace c) \<and>
     (\<forall>c\<in>set post. py_isspace c)"
proof -
  let ?m = "dropWhile py_isspace s"
  have 1: "s = takeWhile py_isspace s @ ?m" by simp
  have 2: "?m = strip s @ rev (takeWhile py_isspace (rev ?m))"
    unfolding strip_def by (metis rev_append rev_rev_ident takeWhile_dropWhile_id)
  have 3: "\<forall>c\<in>set (takeWhile py_isspace s). py_isspace c"
    by (meson set_takeWhileD)
  have 4: "\<forall>c\<in>set (rev (takeWhile py_isspace (rev ?m))). py_isspace c"
    by (metis set_rev set_takeWhileD)
  from 1 2 3 4 show ?thesis by metis
qed

lemma dropWhile_space_prefix:
  assumes "\<forall>c\<in>set pre. py_isspace c" "xs \<noteq> []" "\<not> py_isspace (hd xs)"
  shows "dropWhile py_isspace (pre @ xs) = xs"
proof -
  have "dropWhile py_isspace (pre @ xs) = dropWhile py_isspace xs"
    using assms(1) by (simp add: dropWhile_append2)
  also have "\<dots> = xs"
    using assms(2,3) by (cases xs) simp_all
  finally show ?thesis .
qed

lemma strip_core:
  assumes "\<forall>c\<in>set pre. py_isspace c" "\<forall>c\<in>set post. py_isspace c"
    "core \<noteq> []" "\<not> py_isspace (hd core)" "\<not> py_isspace (last core)"
  shows "strip (pre @ core @ post) = core"
proof -
  have a: "dropWhile py_isspace (pre @ (core @ post)) = core @ post"
    using assms(1,3,4) by (intro dropWhile_space_prefix) simp_all
  have b: "dropWhile py_isspace (rev post @ rev core) = rev core"
    using assms(2,3,5) by (intro dropWhile_space_prefix) (simp_all add: hd_rev)
  show ?thesis by (simp add: strip_def a b)
qed

lemma normalised_match_iff:
  assumes w: "w \<noteq> []" "\<not> py_isspace (hd w)" "\<not> py_isspace (last w)"
  shows "lower (strip content) = w \<longleftrightarrow>
     (\<exists>pre core post. content = pre @ core @ post \<and> (\<forall>c\<in>set pre. py_isspace c) \<and>
        (\<forall>c\<in>set post. py_isspace c) \<and> map lower_char core = w)"
  (is "?L \<longleftrightarrow> ?R")
proof
  assume l: ?L
  obtain pre post where "content = pre @ strip content @ post"
    "\<forall>c\<in>set pre. py_isspace c" "\<forall>c\<in>set post. py_isspace c"
    using strip_decompose[of content] by blast
  moreover have "map lower_char (strip content) = w"
    using l by (simp only: lower_def)
  ultimately show ?R by blast
next
  assume ?R
  then obtain pre core post where c: "content = pre @ core @ post"
    and pre: "\<forall>c\<in>set pre. py_isspace c" and post: "\<forall>c\<in>set post. py_isspace c"
    and core: "map lower_char core = w" by blast
  have ne: "core \<noteq> []" using core w(1) by auto
  have "hd w = lower_char (hd core)" "last w = lower_char (last core)"
    using core ne by (auto simp: hd_map last_map)
  then have "\<not> py_isspace (hd core)" "\<not> py_isspace (last core)"
    using w(2,3) lower_char_not_space by metis+
  then have "strip (pre @ core @ post) = core"
    using pre post ne by (intro strip_core)
  then show ?L
    by (simp only: c lower_def core)
qed

lemma true_ends:
  "''true'' \<noteq> []" "\<not> py_isspace (hd ''true'')" "\<not> py_isspace (last ''true'')"
  by (simp_all add: py_isspace_def)

lemma check_compliance_answer:
  assumes "build_prompt query chunks = Inr prompt" and "llm (judge_request prompt) = Inr content"
  shows "check_compliance llm query chunks =
           (Inr (lower (strip content) = ''true''), [Llm (judge_request prompt)])"
  using assms by (simp add: check_compliance_def Let_def)

text \<open>
  Claim C1, as the notebook has it. Once the prompt is built and the model has answered,
  the verdict is a function of the answer alone: it is true exactly when the answer,
  stripped and lowered, is \<open>true\<close>, that is when the answer is a spelling of
  \<open>true\<close> in any case between whitespace. Every other answer gives the verdict
  false; no answer gives an exception.
\<close>

theorem C1_verdict_is_normalised_match:
  assumes "build_prompt query chunks = Inr prompt" and "llm (judge_request prompt) = Inr content"
  shows "check_compliance llm query chunks =
           (Inr (lower (strip content) = ''true''), [Llm (judge_request prompt)]) \<and>
         ((lower (strip content) = ''true'') =
            (\<exists>pre core post. content = pre @ core @ post \<and> (\<forall>c\<in>set pre. py_isspace c) \<and>
               (\<forall>c\<in>set post. py_isspace c) \<and> map lower_char core = ''true''))"
  using check_compliance_answer[where llm = llm, OF assms] normalised_match_iff[OF true_ends, of content]
  by (rule conjI)

lemma dict_chunks_prompt:
  "build_prompt ''q'' dict_chunks = Inr (Prompt ''q'' (PyInt 1) (PyInt 2) (PyInt 3))"
  by (simp add: build_prompt_def dict_chunks_def seq_getitem_simps)

text \<open>The answer \<open>TRUE\<close> followed by a space gives the verdict true.\<close>

theorem C1_verdict_witness:
  "build_prompt ''q'' dict_chunks = Inr (Prompt ''q'' (PyInt 1) (PyInt 2) (PyInt 3)) \<and>
   mock_llm ''TRUE '' (judge_request (Prompt ''q'' (PyInt 1) (PyInt 2) (PyInt 3))) = Inr ''TRUE '' \<and>
   fst (check_compliance (mock_llm ''TRUE '') ''q'' dict_chunks) = Inr True"
proof -
  have h2: "mock_llm ''TRUE '' (judge_request (Prompt ''q'' (PyInt 1) (PyInt 2) (PyInt 3))) = Inr ''TRUE ''"
    by (simp add: mock_llm_def)
  have n: "lower (strip ''TRUE '') = ''true''" by code_simp
  from C1_verdict_is_normalised_match[where llm = "mock_llm ''TRUE ''", OF dict_chunks_prompt h2]
  have "fst (check_compliance (mock_llm ''TRUE '') ''q'' dict_chunks) = Inr (lower (strip ''TRUE '') = ''true'')"
    by (simp only: fst_conv)
  then have "fst (check_compliance (mock_llm ''TRUE '') ''q'' dict_chunks) = Inr True"
    by (simp only: n simp_thms)
  then show ?thesis using dict_chunks_prompt h2 by blast
qed

lemma verdict_True_example:
  "fst (check_compliance (mock_llm ''True'') ''q'' dict_chunks) = Inr True"
  by code_simp

text \<open>The answer \<open>Maybe\<close> is returned as the verdict false, not raised as an error.\<close>

theorem C1_maybe_is_false_not_an_error:
  "fst (check_compliance (mock_llm ''Maybe'') ''q'' dict_chunks) = Inr False"
  by code_simp


subsection \<open>The rows a query selects\<close>

lemma length_select_rows:
  "length (select_rows embedding distance query rows) = min 3 (length rows)"
  by (simp add: select_rows_def min.commute)

lemma sorted_select_rows:
  "sorted (map (order_key embedding distance query) (select_rows embedding distance query rows))"
proof -
  have "sorted (map (order_key embedding distance query)
                  (sort_key (order_key embedding distance query) rows))"
    by (rule sorted_sort_key)
  then have "sorted (take 3 (map (order_key embedding distance query)
                  (sort_key (order_key embedding distance query) rows)))"
    by (rule sorted_wrt_take)
  then show ?thesis by (simp add: select_rows_def take_map)
qed

lemma mset_select_rows:
  "mset rows =
     mset (select_rows embedding distance query rows) +
     mset (drop 3 (sort_key (order_key embedding distance query) rows))"
proof -
  let ?s = "sort_key (order_key embedding distance query) rows"
  have "mset rows = mset ?s" by simp
  also have "\<dots> = mset (take 3 ?s @ drop 3 ?s)" by simp
  also have "\<dots> = mset (take 3 ?s) + mset (drop 3 ?s)" by (rule mset_append)
  finally show ?thesis by (simp add: select_rows_def)
qed

lemma select_rows_nearest:
  assumes "r \<in> set (select_rows embedding distance query rows)"
    and "r' \<in># mset rows - mset (select_rows embedding distance query rows)"
  shows "order_key embedding distance query r \<le> order_key embedding distance query r'"
proof -
  let ?k = "order_key embedding distance query"
  let ?s = "sort_key ?k rows"
  have "sorted (map ?k (take 3 ?s) @ map ?k (drop 3 ?s))"
    by (metis append_take_drop_id map_append sorted_sort_key)
  then have le: "\<forall>x\<in>set (take 3 ?s). \<forall>y\<in>set (drop 3 ?s). ?k x \<le> ?k y"
    unfolding sorted_append by auto
  have "mset rows - mset (select_rows embedding distance query rows) = mset (drop 3 ?s)"
    using mset_select_rows[of rows embedding distance query] by simp
  then have "r' \<in> set (drop 3 ?s)" using assms(2) by simp
  moreover have "r \<in> set (take 3 ?s)" using assms(1) by (simp add: select_rows_def)
  ultimately show ?thesis using le by blast
qed

lemma order_key_vectors:
  assumes "vector r = Some u" "vector r' = Some v"
  shows "order_key embedding distance query r \<le> order_key embedding distance query r' \<longleftrightarrow>
           distance u (embedding query) \<le> distance v (embedding query)"
  using assms by (simp add: order_key_def)

lemma select_rows_ascending:
  assumes "i \<le> j" "j < length (select_rows embedding distance query rows)"
    and "vector (select_rows embedding distance query rows ! i) = Some u"
    and "vector (select_rows embedding distance query rows ! j) = Some v"
  shows "distance u (embedding query) \<le> distance v (embedding query)"
proof -
  let ?res = "select_rows embedding distance query rows"
  have "map (order_key embedding distance query) ?res ! i
          \<le> map (order_key embedding distance query) ?res ! j"
    using sorted_select_rows[of embedding distance query rows] assms(1,2)
    by (simp add: sorted_iff_nth_mono del: nth_map)
  then have "order_key embedding distance query (?res ! i)
          \<le> order_key embedding distance query (?res ! j)"
    using assms(1,2) by simp
  then show ?thesis
    using order_key_vectors[where embedding = embedding and distance = distance
        and query = query, OF assms(3,4)]
    by simp
qed

lemma execute_fetchall_table:
  "compliance_documents db = Some rows \<Longrightarrow>
     execute_fetchall embedding distance db query =
       Inr (PyList (map row_tuple (select_rows embedding distance query rows)))"
  by (simp add: execute_fetchall_def)

text \<open>
  Claim C2, as the notebook has it. On an existing table the query returns, for every
  query text, the \<open>(id, vector)\<close> tuples of the rows it selects. These are the
  three rows nearest to the embedding of the text, or all the rows where the table
  holds fewer: their number is the smaller of 3 and the size of the table, they are rows
  of the table, they come in ascending order of the distance between the stored vector
  and the embedding of the text (a row without a vector after every row with one), and
  no row left out is nearer than a row returned.
\<close>

theorem C2_retrieval_returns_nearest_rows:
  assumes "compliance_documents db = Some rows"
  shows "execute_fetchall embedding distance db query =
           Inr (PyList (map row_tuple (select_rows embedding distance query rows))) \<and>
         length (select_rows embedding distance query rows) = min 3 (length rows) \<and>
         mset (select_rows embedding distance query rows) \<subseteq># mset rows \<and>
         sorted (map (order_key embedding distance query)
                   (select_rows embedding distance query rows)) \<and>
         (\<forall>i j u v. i \<le> j \<and> j < length (select_rows embedding distance query rows) \<and>
            vector (select_rows embedding distance query rows ! i) = Some u \<and>
            vector (select_rows embedding distance query rows ! j) = Some v \<longrightarrow>
            distance u (embedding query) \<le> distance v (embedding query)) \<and>
         (\<forall>r \<in> set (select_rows embedding distance query rows).
            \<forall>r' \<in># mset rows - mset (select_rows embedding distance query rows).
              order_key embedding distance query r \<le> order_key embedding distance query r')"
proof (intro conjI)
  show "execute_fetchall embedding distance db query =
           Inr (PyList (map row_tuple (select_rows embedding distance query rows)))"
    by (rule execute_fetchall_table[OF assms])
  show "length (select_rows embedding distance query rows) = min 3 (length rows)"
    by (rule length_select_rows)
  show "mset (select_rows embedding distance query rows) \<subseteq># mset rows"
    using mset_select_rows[of rows embedding distance query] by (metis mset_subset_eq_add_left)
  show "sorted (map (order_key embedding distance query)
                   (select_rows embedding distance query rows))"
    by (rule sorted_select_rows)
  show "\<forall>i j u v. i \<le> j \<and> j < length (select_rows embedding distance query rows) \<and>
            vector (select_rows embedding distance query rows ! i) = Some u \<and>
            vector (select_rows embedding distance query rows ! j) = Some v \<longrightarrow>
            distance u (embedding query) \<le> distance v (embedding query)"
    using select_rows_ascending[of _ _ embedding distance query rows] by blast
  show "\<forall>r \<in> set (select_rows embedding distance query rows).
            \<forall>r' \<in># mset rows - mset (select_rows embedding distance query rows).
              order_key embedding distance query r \<le> order_key embedding distance query r'"
    using select_rows_nearest[of _ embedding distance query rows] by blast
qed

lemma sample_select:
  "select_rows length_embedding l1_distance ''a'' sample_rows =
     [\<lparr>doc_id = 2, chunk = ''c2'', vector = Some [1]\<rparr>,
      \<lparr>doc_id = 5, chunk = ''c5'', vector = Some [2]\<rparr>,
      \<lparr>doc_id = 4, chunk = ''c4'', vector = Some [4]\<rparr>]"
  by code_simp


lemma sample_table: "compliance_documents (database_with rows) = Some rows"
  by (simp add: database_with_def)

text \<open>The sample table of five rows and the query \<open>a\<close>: rows 2, 5 and 4 are returned.\<close>

theorem C2_retrieval_witness:
  "compliance_documents (database_with sample_rows) = Some sample_rows \<and>
   execute_fetchall length_embedding l1_distance (database_with sample_rows) ''a'' =
     Inr (PyList [PyTuple [PyInt 2, PyList [PyFloat 1]], PyTuple [PyInt 5, PyList [PyFloat 2]],
                  PyTuple [PyInt 4, PyList [PyFloat 4]]]) \<and>
   length (select_rows length_embedding l1_distance ''a'' sample_rows) = min 3 (length sample_rows)"
proof -
  have h: "compliance_documents (database_with sample_rows) = Some sample_rows"
    by (rule sample_table)
  note c = C2_retrieval_returns_nearest_rows[OF h, of length_embedding l1_distance "''a''"]
  from c have "execute_fetchall length_embedding l1_distance (database_with sample_rows) ''a'' =
     Inr (PyList (map row_tuple (select_rows length_embedding l1_distance ''a'' sample_rows)))"
    by (rule conjunct1)
  then have "execute_fetchall length_embedding l1_distance (database_with sample_rows) ''a'' =
     Inr (PyList [PyTuple [PyInt 2, PyList [PyFloat 1]], PyTuple [PyInt 5, PyList [PyFloat 2]],
                  PyTuple [PyInt 4, PyList [PyFloat 4]]])"
    by (simp add: sample_select row_tuple_def)
  moreover from c
  have "length (select_rows length_embedding l1_distance ''a'' sample_rows) = min 3 (length sample_rows)"
    by blast
  ultimately show ?thesis using h by blast
qed

text \<open>
  On a table of one row the result has one tuple, not three, and the tuple holds the
  stored vector \<open>[9]\<close>, not the distance 8.
\<close>

theorem C2_single_row_counterexample:
  "execute_fetchall length_embedding l1_distance
     (database_with [\<lparr>doc_id = 1, chunk = ''c1'', vector = Some [9]\<rparr>]) ''a'' =
     Inr (PyList [PyTuple [PyInt 1, PyList [PyFloat 9]]]) \<and>
   l1_distance [9] (length_embedding ''a'') = 8"
  by code_simp

text \<open>
  Claim C6. On every table and every query the result is a list of at most three
  tuples and of at most as many tuples as the table has rows; on the empty table it is
  the empty list, not an exception.
\<close>

theorem C6_result_length_bounded:
  assumes "compliance_documents db = Some rows"
  shows "\<exists>results. execute_fetchall embedding distance db query = Inr (PyList results) \<and>
           length results \<le> 3 \<and> length results \<le> length rows \<and>
           (rows = [] \<longrightarrow> results = [])"
proof -
  let ?results = "map row_tuple (select_rows embedding distance query rows)"
  have "execute_fetchall embedding distance db query = Inr (PyList ?results)"
    by (rule execute_fetchall_table[OF assms])
  moreover have "length ?results = min 3 (length rows)"
    by (simp add: length_select_rows)
  ultimately show ?thesis by (intro exI[of _ ?results]) auto
qed

text \<open>The empty table and the sample table.\<close>

theorem C6_result_length_witness:
  "compliance_documents (database_with []) = Some [] \<and>
   execute_fetchall length_embedding l1_distance (database_with []) ''a'' = Inr (PyList []) \<and>
   compliance_documents (database_with sample_rows) = Some sample_rows \<and>
   (\<exists>results. execute_fetchall length_embedding l1_distance (database_with sample_rows) ''a'' =
        Inr (PyList results) \<and> length results \<le> 3 \<and> length results \<le> length sample_rows)"
proof -
  have h0: "compliance_documents (database_with []) = Some []" by (rule sample_table)
  have h1: "compliance_documents (database_with sample_rows) = Some sample_rows"
    by (rule sample_table)
  from C6_result_length_bounded[OF h0, of length_embedding l1_distance "''a''"]
  have "execute_fetchall length_embedding l1_distance (database_with []) ''a'' = Inr (PyList [])"
    by auto
  moreover from C6_result_length_bounded[OF h1, of length_embedding l1_distance "''a''"]
  have "\<exists>results. execute_fetchall length_embedding l1_distance (database_with sample_rows) ''a'' =
        Inr (PyList results) \<and> length results \<le> 3 \<and> length results \<le> length sample_rows"
    by blast
  ultimately show ?thesis using h0 h1 by blast
qed

subsection \<open>The judge on fetched rows\<close>

lemma build_prompt_tuple:
  "build_prompt query (PyList (PyTuple xs # rest)) = Inl TypeError"
  by (simp add: build_prompt_def seq_getitem_simps)

text \<open>
  Claim C8. The retrieval loop stores the rows as \<open>fetchall\<close> returns them, as
  tuples, and the judge subscripts its first record with the string \<open>'id'\<close>: on
  the result of the query on any table that is not empty, the judge raises TypeError
  while it builds the prompt, and sends no request.
\<close>

theorem C8_judge_rejects_fetched_rows:
  assumes "compliance_documents db = Some rows" and "rows \<noteq> []"
  shows "\<exists>results. execute_fetchall embedding distance db query = Inr results \<and>
           check_compliance llm query results = (Inl TypeError, [])"
proof -
  have "length (select_rows embedding distance query rows) \<noteq> 0"
    using assms(2) by (simp add: length_select_rows)
  then obtain r rs where rs: "select_rows embedding distance query rows = r # rs"
    by (cases "select_rows embedding distance query rows") auto
  let ?results = "PyList (map row_tuple (select_rows embedding distance query rows))"
  have "build_prompt query ?results = Inl TypeError"
    by (simp add: rs row_tuple_def build_prompt_tuple)
  then have "check_compliance llm query ?results = (Inl TypeError, [])"
    by (rule check_compliance_prompt_error)
  then show ?thesis using execute_fetchall_table[OF assms(1)] by blast
qed

text \<open>The sample table and the query \<open>a\<close>.\<close>

theorem C8_judge_rejects_witness:
  "compliance_documents (database_with sample_rows) = Some sample_rows \<and> sample_rows \<noteq> [] \<and>
   (\<exists>results. execute_fetchall length_embedding l1_distance (database_with sample_rows) ''a'' =
        Inr results \<and>
      check_compliance (mock_llm ''True'') ''a'' results = (Inl TypeError, []))"
proof -
  have h: "compliance_documents (database_with sample_rows) = Some sample_rows"
    by (rule sample_table)
  have n: "sample_rows \<noteq> []" by (simp add: sample_rows_def)
  from C8_judge_rejects_fetched_rows[OF h n, of length_embedding l1_distance "''a''" "mock_llm ''True''"]
  show ?thesis using h n by blast
qed

subsection \<open>The ingest and chunk cells\<close>

lemma dict_no_markdown_url: "py_getattr (PyDict items) ''markdown_url'' = Inl AttributeError"
  by (simp add: py_getattr_def)

lemma response_no_chunks: "response_getattr response ''chunks'' = Inl AttributeError"
  by (simp add: response_getattr_def response_attrs_def)

text \<open>
  Claim C9. On a response of status 200 whose body is a JSON object, the ingest cell
  raises AttributeError at \<open>result.markdown_url\<close>, whatever the object holds; on
  a response of status 200 whose body is JSON, the chunk cell raises AttributeError at
  \<open>response.chunks\<close>. Neither cell binds the value the service sent.
\<close>

theorem C9_attribute_access_raises:
  assumes "status_code (post ingest_api_url (PyDict [(PyStr ''url'', PyStr pdf_url)])) = 200"
    and "body (post ingest_api_url (PyDict [(PyStr ''url'', PyStr pdf_url)])) = Some (PyDict items)"
    and "markdown_url_var ns' = Some url"
    and "status_code (post' chunk_api_url (PyDict [(PyStr ''url'', url)])) = 200"
    and "body (post' chunk_api_url (PyDict [(PyStr ''url'', url)])) = Some result"
  shows "ingest_cell post ns = Inl AttributeError \<and> chunk_cell post' ns' = Inl AttributeError"
proof
  show "ingest_cell post ns = Inl AttributeError"
    using assms(1,2) by (simp add: ingest_cell_def Let_def response_json_def dict_no_markdown_url)
  show "chunk_cell post' ns' = Inl AttributeError"
    using assms(3,4,5) by (simp add: chunk_cell_def Let_def response_json_def response_no_chunks)
qed

text \<open>
  Claim C4, as the notebook has it. On a response whose status is not 200 neither cell
  raises: the ingest cell leaves every name as it was, so \<open>markdown_url\<close> stays
  unbound on a first run, and the chunk cell ends with \<open>chunks\<close> bound to the empty
  list.
\<close>

theorem C4_other_status_is_silent:
  assumes "status_code (post ingest_api_url (PyDict [(PyStr ''url'', PyStr pdf_url)])) \<noteq> 200"
    and "markdown_url_var ns' = Some url"
    and "status_code (post' chunk_api_url (PyDict [(PyStr ''url'', url)])) \<noteq> 200"
  shows "ingest_cell post ns = Inr ns \<and>
         chunk_cell post' ns' = Inr (ns'\<lparr>chunks_var := Some (PyList [])\<rparr>)"
proof
  show "ingest_cell post ns = Inr ns"
    using assms(1) by (simp add: ingest_cell_def Let_def)
  show "chunk_cell post' ns' = Inr (ns'\<lparr>chunks_var := Some (PyList [])\<rparr>)"
    using assms(2,3) by (simp add: chunk_cell_def Let_def)
qed


lemma mock_post_fields:
  "status_code (mock_post status answer url payload) = status"
  "body (mock_post status answer url payload) = answer"
  by (simp_all add: mock_post_def)

text \<open>Bodies of the shape the two services answer with.\<close>

theorem C9_attribute_access_witness:
  "status_code (mock_post 200 (Some (PyDict [(PyStr ''markdown_url'', PyStr ''https://example.org/act.md'')]))
      ingest_api_url (PyDict [(PyStr ''url'', PyStr pdf_url)])) = 200 \<and>
   markdown_url_var bound_namespace = Some (PyStr ''https://example.org/act.md'') \<and>
   ingest_cell (mock_post 200 (Some (PyDict [(PyStr ''markdown_url'', PyStr ''https://example.org/act.md'')])))
      unbound_namespace = Inl AttributeError \<and>
   chunk_cell (mock_post 200 (Some (PyDict [(PyStr ''chunks'', PyList [PyStr ''c1'', PyStr ''c2''])])))
      bound_namespace = Inl AttributeError"
proof -
  let ?post = "mock_post 200 (Some (PyDict [(PyStr ''markdown_url'', PyStr ''https://example.org/act.md'')]))"
  let ?post' = "mock_post 200 (Some (PyDict [(PyStr ''chunks'', PyList [PyStr ''c1'', PyStr ''c2''])]))"
  have b: "markdown_url_var bound_namespace = Some (PyStr ''https://example.org/act.md'')"
    by (simp add: bound_namespace_def)
  have s: "status_code (?post ingest_api_url (PyDict [(PyStr ''url'', PyStr pdf_url)])) = 200"
    by (rule mock_post_fields)
  from C9_attribute_access_raises[where post = ?post and post' = ?post'
      and ns = unbound_namespace and ns' = bound_namespace,
      OF mock_post_fields(1) mock_post_fields(2) b mock_post_fields(1) mock_post_fields(2)]
  show ?thesis using b s by blast
qed

text \<open>A status 201 with a well-formed body, and a status 503.\<close>

theorem C4_other_status_witness:
  "status_code (mock_post 201 (Some (PyDict [(PyStr ''markdown_url'', PyStr ''https://example.org/act.md'')]))
      ingest_api_url (PyDict [(PyStr ''url'', PyStr pdf_url)])) \<noteq> 200 \<and>
   markdown_url_var bound_namespace = Some (PyStr ''https://example.org/act.md'') \<and>
   ingest_cell (mock_post 201 (Some (PyDict [(PyStr ''markdown_url'', PyStr ''https://example.org/act.md'')])))
      unbound_namespace = Inr unbound_namespace \<and>
   chunk_cell (mock_post 503 None) bound_namespace =
      Inr (bound_namespace\<lparr>chunks_var := Some (PyList [])\<rparr>)"
proof -
  let ?post = "mock_post 201 (Some (PyDict [(PyStr ''markdown_url'', PyStr ''https://example.org/act.md'')]))"
  let ?post' = "mock_post 503 None"
  have b: "markdown_url_var bound_namespace = Some (PyStr ''https://example.org/act.md'')"
    by (simp add: bound_namespace_def)
  have s: "status_code (?post ingest_api_url (PyDict [(PyStr ''url'', PyStr pdf_url)])) \<noteq> 200"
    by (simp add: mock_post_fields)
  have s': "status_code (?post' chunk_api_url (PyDict [(PyStr ''url'', PyStr ''https://example.org/act.md'')])) \<noteq> 200"
    by (simp add: mock_post_fields)
  from C4_other_status_is_silent[where post = ?post and post' = ?post'
      and ns = unbound_namespace and ns' = bound_namespace, OF s b s']
  show ?thesis using b s by blast
qed

text \<open>
  A status 404 at the ingest cell and a status 500 at the chunk cell: both cells end
  without an exception.
\<close>

theorem C4_failure_not_raised_counterexample:
  "ingest_cell (mock_post 404 None) unbound_namespace = Inr unbound_namespace \<and>
   chunk_cell (mock_post 500 None) bound_namespace =
      Inr (bound_namespace\<lparr>chunks_var := Some (PyList [])\<rparr>)"
  by (simp add: ingest_cell_def chunk_cell_def mock_post_def bound_namespace_def Let_def)

subsection \<open>The table before the retrieval loop\<close>

lemma chunk_cell_binds_empty:
  "chunk_cell post ns = Inr ns' \<Longrightarrow> chunks_var ns' = Some (PyList [])"
  by (auto simp: chunk_cell_def Let_def response_json_def response_getattr_def
        response_attrs_def and_then_def split: option.splits if_splits sum.splits)

lemma run_statement_rows:
  "run_statement stmt db = Inr db' \<Longrightarrow>
     compliance_documents db' = compliance_documents db \<or> compliance_documents db' = Some []"
  by (cases stmt) (auto split: option.splits)

lemma cursor_execute_rows:
  assumes "cursor_execute stmt conn = (r, conn')"
  shows "committed conn' = committed conn \<and>
         (compliance_documents (pending conn') = compliance_documents (pending conn) \<or>
          compliance_documents (pending conn') = Some [])"
  using assms run_statement_rows[of stmt "pending conn"]
  by (auto simp: cursor_execute_def split: transaction_status.splits sum.splits)

lemma embedding_job_cell_raises:
  "fst (embedding_job_cell conn) =
     Some (if transaction conn = InError then InFailedSqlTransaction else ActiveSqlTransaction)"
  by (simp add: embedding_job_cell_def then_run_def cursor_execute_def
        split: transaction_status.splits)

lemma embedding_job_cell_connection:
  "snd (embedding_job_cell conn) = conn\<lparr>transaction := InError\<rparr>"
  by (cases conn) (simp add: embedding_job_cell_def then_run_def cursor_execute_def
        split: transaction_status.splits)

lemma create_table_cell_rows:
  assumes "create_table_cell conn = (r, conn')"
  shows "(compliance_documents (committed conn') = compliance_documents (committed conn) \<or>
          compliance_documents (committed conn') = compliance_documents (pending conn) \<or>
          compliance_documents (committed conn') = Some []) \<and>
         (compliance_documents (pending conn') = compliance_documents (pending conn) \<or>
          compliance_documents (pending conn') = Some [])"
  using assms
  by (auto simp: create_table_cell_def then_run_def cursor_execute_def connection_commit_def
        split: transaction_status.splits sum.splits option.splits)


subsection \<open>The retrieval loop and the compliance loop\<close>

lemma retrieved_append: "retrieved (es @ fs) = retrieved es @ retrieved fs"
  by (induction es rule: retrieved.induct) simp_all

lemma judged_append: "judged (es @ fs) = judged es @ judged fs"
  by (induction es rule: judged.induct) simp_all

lemma retrieved_map_Retrieve: "retrieved (map Retrieve qs) = qs"
  by (induction qs) simp_all

lemma judged_map_Retrieve: "judged (map Retrieve qs) = []"
  by (induction qs) simp_all

lemma check_compliance_events:
  "retrieved (snd (check_compliance llm query chunks)) = []"
  "judged (snd (check_compliance llm query chunks)) = []"
  by (simp_all add: check_compliance_def Let_def split: sum.splits)

lemma retrieval_loop_table:
  assumes "compliance_documents db = Some rows"
  shows "retrieval_loop embedding distance db qs sc =
     (Inr (fold (\<lambda>q. dict_setitem q (PyList (map row_tuple (select_rows embedding distance q rows))))
             qs sc),
      map Retrieve qs)"
proof (induction qs arbitrary: sc)
  case Nil
  show ?case by simp
next
  case (Cons q qs)
  show ?case
    by (simp add: execute_fetchall_table[OF assms] Cons.IH)
qed

lemma dict_setitem_keys:
  "set (map fst (dict_setitem k v d)) = insert k (set (map fst d))"
  using dom_update[of k v d] by (simp add: dict_setitem_def)

lemma dict_setitem_distinct:
  "distinct (map fst d) \<Longrightarrow> distinct (map fst (dict_setitem k v d))"
  unfolding dict_setitem_def by (rule distinct_update)

lemma dict_setitem_lookup:
  "map_of (dict_setitem k v d) k' = (if k' = k then Some v else map_of d k')"
  by (simp add: dict_setitem_def update_conv')

lemma dict_setitem_new_key:
  "k \<notin> fst ` set d \<Longrightarrow> map fst (dict_setitem k v d) = map fst d @ [k]"
  by (simp add: dict_setitem_def update_keys)

lemma fold_setitem_keys:
  "set (map fst (fold (\<lambda>q. dict_setitem q (f q)) qs sc)) = set (map fst sc) \<union> set qs"
proof (induction qs arbitrary: sc)
  case Nil
  show ?case by simp
next
  case (Cons q qs)
  have "set (map fst (fold (\<lambda>q. dict_setitem q (f q)) (q # qs) sc)) =
          set (map fst (dict_setitem q (f q) sc)) \<union> set qs"
    using Cons.IH[of "dict_setitem q (f q) sc"] by simp
  also have "\<dots> = set (map fst sc) \<union> set (q # qs)"
    unfolding dict_setitem_keys by auto
  finally show ?case .
qed

lemma fold_setitem_distinct:
  "distinct (map fst sc) \<Longrightarrow> distinct (map fst (fold (\<lambda>q. dict_setitem q (f q)) qs sc))"
proof (induction qs arbitrary: sc)
  case Nil
  then show ?case by simp
next
  case (Cons q qs)
  have "distinct (map fst (dict_setitem q (f q) sc))"
    using Cons.prems by (rule dict_setitem_distinct)
  then show ?case using Cons.IH[of "dict_setitem q (f q) sc"] by simp
qed

lemma fold_setitem_lookup:
  "map_of (fold (\<lambda>q. dict_setitem q (f q)) qs sc) k =
     (if k \<in> set qs then Some (f k) else map_of sc k)"
proof (induction qs arbitrary: sc)
  case Nil
  show ?case by simp
next
  case (Cons q qs)
  have "map_of (fold (\<lambda>q. dict_setitem q (f q)) (q # qs) sc) k =
          (if k \<in> set qs then Some (f k) else map_of (dict_setitem q (f q) sc) k)"
    using Cons.IH[of "dict_setitem q (f q) sc"] by simp
  then show ?case by (simp add: dict_setitem_lookup)
qed

lemma compliance_loop_events:
  "retrieved (snd (compliance_loop llm sc cr)) = [] \<and>
   (\<exists>m. judged (snd (compliance_loop llm sc cr)) = take m (map fst sc))"
proof (induction sc arbitrary: cr)
  case Nil
  show ?case by simp
next
  case (Cons p sc)
  obtain query chunks where p: "p = (query, chunks)" by (cases p)
  obtain res ev where c: "check_compliance llm query chunks = (res, ev)"
    by (cases "check_compliance llm query chunks")
  have ev: "retrieved ev = []" "judged ev = []"
    using check_compliance_events[of llm query chunks] by (simp_all add: c)
  show ?case
  proof (cases res)
    case (Inl e)
    have "judged (snd (compliance_loop llm (p # sc) cr)) = take 1 (map fst (p # sc))"
      by (simp add: p c Inl ev)
    moreover have "retrieved (snd (compliance_loop llm (p # sc) cr)) = []"
      by (simp add: p c Inl ev)
    ultimately show ?thesis by blast
  next
    case (Inr b)
    obtain r ev' where l: "compliance_loop llm sc (dict_setitem query b cr) = (r, ev')"
      by (cases "compliance_loop llm sc (dict_setitem query b cr)")
    from Cons.IH[of "dict_setitem query b cr"] obtain m
      where ih: "retrieved ev' = []" "judged ev' = take m (map fst sc)"
      by (auto simp: l)
    have "judged (snd (compliance_loop llm (p # sc) cr)) = take (Suc m) (map fst (p # sc))"
      by (simp add: p c Inr l ev ih judged_append)
    moreover have "retrieved (snd (compliance_loop llm (p # sc) cr)) = []"
      by (simp add: p c Inr l ev ih retrieved_append)
    ultimately show ?thesis by blast
  qed
qed

lemma compliance_loop_keys:
  assumes "compliance_loop llm sc cr = (Inr cr', ev)"
    and "distinct (map fst sc)" and "set (map fst cr) \<inter> set (map fst sc) = {}"
  shows "map fst cr' = map fst cr @ map fst sc"
  using assms
proof (induction sc arbitrary: cr ev)
  case Nil
  then show ?case by simp
next
  case (Cons p sc)
  obtain query chunks where p: "p = (query, chunks)" by (cases p)
  obtain res ev0 where c: "check_compliance llm query chunks = (res, ev0)"
    by (cases "check_compliance llm query chunks")
  obtain b where b: "res = Inr b"
    using Cons.prems(1) by (cases res) (simp_all add: p c)
  obtain r ev' where l: "compliance_loop llm sc (dict_setitem query b cr) = (r, ev')"
    by (cases "compliance_loop llm sc (dict_setitem query b cr)")
  have r: "r = Inr cr'" using Cons.prems(1) by (simp add: p c b l)
  have fresh: "query \<notin> fst ` set cr" using Cons.prems(3) by (auto simp: p)
  have keys: "map fst (dict_setitem query b cr) = map fst cr @ [query]"
    using fresh by (rule dict_setitem_new_key)
  have "set (map fst (dict_setitem query b cr)) \<inter> set (map fst sc) = {}"
    using Cons.prems(2,3) by (auto simp: keys p)
  with Cons.IH[of "dict_setitem query b cr" ev'] l r Cons.prems(2)
  have "map fst cr' = map fst (dict_setitem query b cr) @ map fst sc" by simp
  then show ?case by (simp add: keys p)
qed

lemma compliance_cell_events:
  "snd (compliance_cell llm sc) = snd (compliance_loop llm sc [])"
  by (simp add: compliance_cell_def split: prod.splits sum.splits)

lemma compliance_cell_keys:
  assumes "fst (compliance_cell llm sc) = Inr (cr, rep)" and "distinct (map fst sc)"
  shows "map fst cr = map fst sc"
proof -
  obtain r ev where l: "compliance_loop llm sc [] = (r, ev)"
    by (cases "compliance_loop llm sc []")
  have "r = Inr cr" using assms(1) by (cases r) (simp_all add: compliance_cell_def l)
  then show ?thesis using compliance_loop_keys[of llm sc "[]" cr ev] l assms(2) by simp
qed

lemma query_cells_table:
  assumes "retrieval_cell embedding distance db query_list = (Inr sc, ev)"
  shows "query_cells embedding distance llm db query_list =
           (fst (compliance_cell llm sc), ev @ snd (compliance_cell llm sc))"
  using assms by (simp add: query_cells_def split: prod.splits)


lemma retrieval_cell_table:
  assumes "compliance_documents db = Some rows"
  shows "retrieval_cell embedding distance db query_list =
     (Inr (fold (\<lambda>q. dict_setitem q (PyList (map row_tuple (select_rows embedding distance q rows))))
             query_list []),
      map Retrieve query_list)"
  unfolding retrieval_cell_def by (rule retrieval_loop_table[OF assms])

text \<open>
  Claim C7, as the notebook has it. The calls happen one after another in two phases:
  first the retrieval of every query, in the order of the query list, then the calls of
  the judge and of the language model, the judge being called on the keys of
  \<open>similar_chunks\<close> in their order up to the first call that raises. No retrieval
  comes after the first call of the judge.
\<close>

theorem C7_retrievals_precede_judgments:
  assumes "compliance_documents db = Some rows"
  shows "\<exists>similar_chunks js m.
     retrieval_cell embedding distance db query_list =
       (Inr similar_chunks, map Retrieve query_list) \<and>
     snd (query_cells embedding distance llm db query_list) = map Retrieve query_list @ js \<and>
     js = snd (compliance_cell llm similar_chunks) \<and>
     retrieved js = [] \<and> judged js = take m (map fst similar_chunks)"
proof -
  define sc where "sc = fold (\<lambda>q. dict_setitem q
      (PyList (map row_tuple (select_rows embedding distance q rows)))) query_list []"
  have r: "retrieval_cell embedding distance db query_list = (Inr sc, map Retrieve query_list)"
    unfolding sc_def by (rule retrieval_cell_table[OF assms])
  have q: "snd (query_cells embedding distance llm db query_list) =
             map Retrieve query_list @ snd (compliance_cell llm sc)"
    by (simp add: query_cells_table[OF r])
  obtain m where m: "retrieved (snd (compliance_cell llm sc)) = []"
    "judged (snd (compliance_cell llm sc)) = take m (map fst sc)"
    using compliance_loop_events[of llm sc "[]"] by (auto simp: compliance_cell_events)
  from r q m show ?thesis by blast
qed

text \<open>Three queries on the sample table.\<close>

theorem C7_retrievals_precede_witness:
  "compliance_documents (database_with sample_rows) = Some sample_rows \<and>
   (\<exists>js. snd (query_cells length_embedding l1_distance (mock_llm ''True'')
               (database_with sample_rows) [''a'', ''bb'', ''a'']) =
            [Retrieve ''a'', Retrieve ''bb'', Retrieve ''a''] @ js \<and> retrieved js = [])"
proof -
  have h: "compliance_documents (database_with sample_rows) = Some sample_rows"
    by (rule sample_table)
  from C7_retrievals_precede_judgments[OF h, of length_embedding l1_distance
      "[''a'', ''bb'', ''a'']" "mock_llm ''True''"]
  obtain js where "snd (query_cells length_embedding l1_distance (mock_llm ''True'')
               (database_with sample_rows) [''a'', ''bb'', ''a'']) =
            map Retrieve [''a'', ''bb'', ''a''] @ js" "retrieved js = []"
    by blast
  then show ?thesis using h by simp
qed

text \<open>
  With the queries \<open>a\<close> and \<open>bb\<close>, the retrieval of \<open>bb\<close> comes before the
  judgment of \<open>a\<close>.
\<close>

theorem C7_second_retrieval_before_first_judgment:
  "snd (query_cells length_embedding l1_distance (mock_llm ''True'')
          (database_with sample_rows) [''a'', ''bb'']) =
     [Retrieve ''a'', Retrieve ''bb'', Judge ''a'']"
  by code_simp

lemma set_first_occurrences: "set (first_occurrences xs) = set xs"
  by (induction xs) auto

lemma distinct_first_occurrences: "distinct (first_occurrences xs)"
  by (induction xs) (simp_all add: set_first_occurrences)

lemma dict_setitem_old_key:
  "k \<in> fst ` set d \<Longrightarrow> map fst (dict_setitem k v d) = map fst d"
  by (simp add: dict_setitem_def update_keys)

lemma fold_setitem_key_order:
  "map fst (fold (\<lambda>q. dict_setitem q (f q)) qs sc) =
     map fst sc @ filter (\<lambda>q. q \<notin> set (map fst sc)) (first_occurrences qs)"
proof (induction qs arbitrary: sc)
  case Nil
  show ?case by simp
next
  case (Cons q qs)
  have step: "map fst (fold (\<lambda>q. dict_setitem q (f q)) (q # qs) sc) =
          map fst (dict_setitem q (f q) sc) @
          filter (\<lambda>x. x \<notin> set (map fst (dict_setitem q (f q) sc))) (first_occurrences qs)"
    using Cons.IH[of "dict_setitem q (f q) sc"] by simp
  show ?case
  proof (cases "q \<in> fst ` set sc")
    case True
    have k: "map fst (dict_setitem q (f q) sc) = map fst sc"
      using True by (rule dict_setitem_old_key)
    have "filter (\<lambda>x. x \<notin> set (map fst sc)) (first_occurrences (q # qs)) =
            filter (\<lambda>x. x \<notin> set (map fst sc)) (first_occurrences qs)"
      using True by (auto intro: filter_cong)
    then show ?thesis by (simp only: step k)
  next
    case False
    have k: "map fst (dict_setitem q (f q) sc) = map fst sc @ [q]"
      using False by (rule dict_setitem_new_key)
    have "filter (\<lambda>x. x \<notin> set (map fst sc)) (first_occurrences (q # qs)) =
            q # filter (\<lambda>x. x \<notin> set (map fst sc @ [q])) (first_occurrences qs)"
      using False by (auto intro: filter_cong)
    then show ?thesis by (simp only: step k) simp
  qed
qed

lemma query_cells_judged:
  assumes "retrieval_cell embedding distance db query_list = (Inr sc, map Retrieve query_list)"
  shows "\<exists>m. judged (snd (query_cells embedding distance llm db query_list)) = take m (map fst sc)"
proof -
  obtain m where "judged (snd (compliance_cell llm sc)) = take m (map fst sc)"
    using compliance_loop_events[of llm sc "[]"] by (auto simp: compliance_cell_events)
  then have "judged (snd (query_cells embedding distance llm db query_list)) = take m (map fst sc)"
    by (simp add: query_cells_table[OF assms] judged_append judged_map_Retrieve)
  then show ?thesis by blast
qed

text \<open>
  Claim C10, as the notebook has it. The retrieval loop keys its results by the text of
  the query. From any earlier state of \<open>similar_chunks\<close> the loop on an existing
  table leaves the keys already present in their places, appends the new texts in the
  order in which they first occur, and stores for every text of the query list the
  result of its query, over whatever was stored for it. So \<open>similar_chunks\<close> ends
  with one entry for each distinct text, in the order of first occurrence, with fewer
  entries than queries where a text occurs twice. The texts the two cells then call the
  judge on are a prefix of these keys: the judge is called at most once for a text.
\<close>

theorem C10_one_entry_per_text:
  assumes "compliance_documents db = Some rows"
  shows "(\<exists>sc. retrieval_loop embedding distance db query_list earlier =
              (Inr sc, map Retrieve query_list) \<and>
            map fst sc =
              map fst earlier @
              filter (\<lambda>q. q \<notin> set (map fst earlier)) (first_occurrences query_list) \<and>
            (\<forall>q. map_of sc q =
               (if q \<in> set query_list
                then Some (PyList (map row_tuple (select_rows embedding distance q rows)))
                else map_of earlier q))) \<and>
         (\<exists>sc m. retrieval_cell embedding distance db query_list =
              (Inr sc, map Retrieve query_list) \<and>
            map fst sc = first_occurrences query_list \<and>
            length sc = card (set query_list) \<and>
            judged (snd (query_cells embedding distance llm db query_list)) =
              take m (map fst sc))"
proof
  define f where "f = (\<lambda>q. PyList (map row_tuple (select_rows embedding distance q rows)))"
  define sc where "sc = fold (\<lambda>q. dict_setitem q (f q)) query_list earlier"
  have r: "retrieval_loop embedding distance db query_list earlier =
             (Inr sc, map Retrieve query_list)"
    unfolding sc_def f_def by (rule retrieval_loop_table[OF assms])
  have k: "map fst sc =
             map fst earlier @
             filter (\<lambda>q. q \<notin> set (map fst earlier)) (first_occurrences query_list)"
    unfolding sc_def by (rule fold_setitem_key_order)
  have v: "\<forall>q. map_of sc q = (if q \<in> set query_list then Some (f q) else map_of earlier q)"
    unfolding sc_def by (simp add: fold_setitem_lookup)
  from r k v
  show "\<exists>sc. retrieval_loop embedding distance db query_list earlier =
              (Inr sc, map Retrieve query_list) \<and>
            map fst sc =
              map fst earlier @
              filter (\<lambda>q. q \<notin> set (map fst earlier)) (first_occurrences query_list) \<and>
            (\<forall>q. map_of sc q =
               (if q \<in> set query_list
                then Some (PyList (map row_tuple (select_rows embedding distance q rows)))
                else map_of earlier q))"
    unfolding f_def by blast
next
  define f where "f = (\<lambda>q. PyList (map row_tuple (select_rows embedding distance q rows)))"
  define sc where "sc = fold (\<lambda>q. dict_setitem q (f q)) query_list []"
  have r: "retrieval_cell embedding distance db query_list = (Inr sc, map Retrieve query_list)"
    unfolding sc_def f_def by (rule retrieval_cell_table[OF assms])
  have k: "map fst sc = first_occurrences query_list"
    unfolding sc_def using fold_setitem_key_order[of f query_list "[]"] by simp
  have "length sc = length (first_occurrences query_list)"
    using k by (metis length_map)
  also have "\<dots> = card (set (first_occurrences query_list))"
    using distinct_first_occurrences[of query_list] by (simp only: distinct_card)
  finally have n: "length sc = card (set query_list)"
    by (simp only: set_first_occurrences)
  obtain m where m: "judged (snd (query_cells embedding distance llm db query_list)) =
                       take m (map fst sc)"
    using query_cells_judged[OF r] by blast
  from r k n m
  show "\<exists>sc m. retrieval_cell embedding distance db query_list =
              (Inr sc, map Retrieve query_list) \<and>
            map fst sc = first_occurrences query_list \<and>
            length sc = card (set query_list) \<and>
            judged (snd (query_cells embedding distance llm db query_list)) =
              take m (map fst sc)"
    by blast
qed

text \<open>
  A query list in which \<open>a\<close> occurs twice, from a dictionary that holds an entry
  for \<open>bb\<close>, and from the empty dictionary.
\<close>

theorem C10_one_entry_witness:
  "compliance_documents (database_with sample_rows) = Some sample_rows \<and>
   (\<exists>sc. retrieval_loop length_embedding l1_distance (database_with sample_rows)
            [''a'', ''bb'', ''a''] [(''bb'', PyList [])] =
            (Inr sc, [Retrieve ''a'', Retrieve ''bb'', Retrieve ''a'']) \<and>
          map fst sc = [''bb'', ''a''] \<and>
          map_of sc ''bb'' =
            Some (PyList (map row_tuple (select_rows length_embedding l1_distance ''bb'' sample_rows)))) \<and>
   (\<exists>sc. retrieval_cell length_embedding l1_distance (database_with sample_rows)
            [''a'', ''bb'', ''a''] =
            (Inr sc, [Retrieve ''a'', Retrieve ''bb'', Retrieve ''a'']) \<and>
          map fst sc = [''a'', ''bb''] \<and> length sc = 2)"
proof -
  have h: "compliance_documents (database_with sample_rows) = Some sample_rows"
    by (rule sample_table)
  have c: "card (set [''a'', ''bb'', ''a'']) = 2" by code_simp
  have o: "first_occurrences [''a'', ''bb'', ''a''] = [''a'', ''bb'']" by simp
  have o': "map fst [(''bb'', PyList ([] :: int pyval list))] @
              filter (\<lambda>q. q \<notin> set (map fst [(''bb'', PyList ([] :: int pyval list))]))
                (first_occurrences [''a'', ''bb'', ''a'']) = [''bb'', ''a'']"
    by simp
  note t = C10_one_entry_per_text[OF h, of length_embedding l1_distance
      "[''a'', ''bb'', ''a'']" "[(''bb'', PyList [])]" "mock_llm ''True''"]
  from t obtain sc where sc: "retrieval_loop length_embedding l1_distance (database_with sample_rows)
            [''a'', ''bb'', ''a''] [(''bb'', PyList [])] =
            (Inr sc, map Retrieve [''a'', ''bb'', ''a''])"
    and k: "map fst sc = map fst [(''bb'', PyList ([] :: int pyval list))] @
              filter (\<lambda>q. q \<notin> set (map fst [(''bb'', PyList ([] :: int pyval list))]))
                (first_occurrences [''a'', ''bb'', ''a''])"
    and v: "\<forall>q. map_of sc q =
               (if q \<in> set [''a'', ''bb'', ''a'']
                then Some (PyList (map row_tuple (select_rows length_embedding l1_distance q sample_rows)))
                else map_of [(''bb'', PyList [])] q)"
    by blast
  have k': "map fst sc = [''bb'', ''a'']" using k by (simp only: o')
  have v': "map_of sc ''bb'' =
            Some (PyList (map row_tuple (select_rows length_embedding l1_distance ''bb'' sample_rows)))"
    using v by simp
  have 1: "\<exists>sc. retrieval_loop length_embedding l1_distance (database_with sample_rows)
            [''a'', ''bb'', ''a''] [(''bb'', PyList [])] =
            (Inr sc, [Retrieve ''a'', Retrieve ''bb'', Retrieve ''a'']) \<and>
          map fst sc = [''bb'', ''a''] \<and>
          map_of sc ''bb'' =
            Some (PyList (map row_tuple (select_rows length_embedding l1_distance ''bb'' sample_rows)))"
    using sc k' v' by simp
  from t obtain sc2 where sc2: "retrieval_cell length_embedding l1_distance (database_with sample_rows)
            [''a'', ''bb'', ''a''] = (Inr sc2, map Retrieve [''a'', ''bb'', ''a''])"
    and k2: "map fst sc2 = first_occurrences [''a'', ''bb'', ''a'']"
    and n2: "length sc2 = card (set [''a'', ''bb'', ''a''])"
    by blast
  have "map fst sc2 = [''a'', ''bb'']" using k2 by (simp only: o)
  moreover have "length sc2 = 2" using n2 by (simp only: c)
  ultimately have 2: "\<exists>sc. retrieval_cell length_embedding l1_distance (database_with sample_rows)
            [''a'', ''bb'', ''a''] =
            (Inr sc, [Retrieve ''a'', Retrieve ''bb'', Retrieve ''a'']) \<and>
          map fst sc = [''a'', ''bb''] \<and> length sc = 2"
    using sc2 by simp
  from h 1 2 show ?thesis by blast
qed

text \<open>
  With the text \<open>a\<close> twice in the query list, \<open>similar_chunks\<close> holds a single
  entry for \<open>a\<close> once both retrievals are done, before any verdict exists; the judge
  is called once for \<open>a\<close> and raises on the fetched rows, so the cell ends with
  TypeError and no verdict for \<open>a\<close> is recorded or printed.
\<close>

theorem C10_duplicate_text_one_entry_no_verdict:
  "retrieval_cell length_embedding l1_distance (database_with sample_rows) [''a'', ''a''] =
     (Inr [(''a'', PyList [PyTuple [PyInt 2, PyList [PyFloat 1]],
                           PyTuple [PyInt 5, PyList [PyFloat 2]],
                           PyTuple [PyInt 4, PyList [PyFloat 4]]])],
      [Retrieve ''a'', Retrieve ''a'']) \<and>
   query_cells length_embedding l1_distance (mock_llm ''True'') (database_with sample_rows)
     [''a'', ''a''] =
     (Inl TypeError, [Retrieve ''a'', Retrieve ''a'', Judge ''a''])"
  by code_simp

end
